theory Spec2Isabelle
  imports Complex_Main "HOL-Library.Sublist" "HOL-Library.Multiset"
begin

section \<open>Python strings\<close>

text \<open>
  A Python \<open>str\<close> is modelled as a \<open>string\<close> whose characters are read as the code
  points U+0000 .. U+00FF (Latin-1), so that \<open>length\<close> is Python's \<open>len\<close>. The
  character classes below are the ones CPython uses on that range.
\<close>

datatype py_error = IndexError | KeyError | DocumentOpenError

definition code_point :: "char \<Rightarrow> nat" where
  "code_point c = of_char c"

definition isspace :: "char \<Rightarrow> bool" where
  \<comment> \<open>\<open>str.isspace\<close>, the regex class \<open>\s\<close> and what \<open>strip()\<close> and \<open>split()\<close> remove\<close>
  "isspace c = (let n = code_point c in
     (9 \<le> n \<and> n \<le> 13) \<or> (28 \<le> n \<and> n \<le> 32) \<or> n = 133 \<or> n = 160)"

definition isdecimal :: "char \<Rightarrow> bool" where
  \<comment> \<open>the regex class \<open>\d\<close>\<close>
  "isdecimal c = (let n = code_point c in 48 \<le> n \<and> n \<le> 57)"

definition char_isupper :: "char \<Rightarrow> bool" where
  "char_isupper c = (let n = code_point c in
     (65 \<le> n \<and> n \<le> 90) \<or> (192 \<le> n \<and> n \<le> 214) \<or> (216 \<le> n \<and> n \<le> 222))"

definition char_islower :: "char \<Rightarrow> bool" where
  "char_islower c = (let n = code_point c in
     (97 \<le> n \<and> n \<le> 122) \<or> n = 170 \<or> n = 181 \<or> n = 186
     \<or> (223 \<le> n \<and> n \<le> 246) \<or> (248 \<le> n \<and> n \<le> 255))"

definition char_lower :: "char \<Rightarrow> char" where
  "char_lower c = (let n = code_point c in
     if (65 \<le> n \<and> n \<le> 90) \<or> (192 \<le> n \<and> n \<le> 214) \<or> (216 \<le> n \<and> n \<le> 222)
     then char_of (n + 32) else c)"

definition py_lower :: "string \<Rightarrow> string" where
  "py_lower s = map char_lower s"

definition py_isupper :: "string \<Rightarrow> bool" where
  \<comment> \<open>\<open>str.isupper\<close>: no lower-case character and at least one upper-case one\<close>
  "py_isupper s = (list_all (\<lambda>c. \<not> char_islower c) s \<and> list_ex char_isupper s)"

definition py_strip :: "string \<Rightarrow> string" where
  "py_strip s = rev (dropWhile isspace (rev (dropWhile isspace s)))"

fun split_from :: "string \<Rightarrow> string \<Rightarrow> string list" where
  "split_from w [] = (if w = [] then [] else [w])"
| "split_from w (c # cs) =
     (if isspace c then (if w = [] then split_from [] cs else w # split_from [] cs)
      else split_from (w @ [c]) cs)"

definition py_split :: "string \<Rightarrow> string list" where
  \<comment> \<open>\<open>str.split()\<close> with no argument: the maximal runs of non-whitespace\<close>
  "py_split s = split_from [] s"

fun py_join :: "string \<Rightarrow> string list \<Rightarrow> string" where
  "py_join sep [] = []"
| "py_join sep [x] = x"
| "py_join sep (x # y # ys) = x @ sep @ py_join sep (y # ys)"

fun py_in :: "string \<Rightarrow> string \<Rightarrow> bool" where
  \<comment> \<open>\<open>sub in s\<close>\<close>
  "py_in sub [] = (sub = [])"
| "py_in sub (c # cs) = (prefix sub (c # cs) \<or> py_in sub cs)"

definition endswith :: "string \<Rightarrow> string \<Rightarrow> bool" where
  "endswith s suf = suffix suf s"

fun replace_from :: "string \<Rightarrow> string \<Rightarrow> nat \<Rightarrow> string \<Rightarrow> string" where
  "replace_from old new k [] = []"
| "replace_from old new (Suc k) (c # cs) = replace_from old new k cs"
| "replace_from old new 0 (c # cs) =
     (if prefix old (c # cs) then new @ replace_from old new (length old - 1) cs
      else c # replace_from old new 0 cs)"

definition py_replace :: "string \<Rightarrow> string \<Rightarrow> string \<Rightarrow> string" where
  \<comment> \<open>\<open>s.replace(old, new)\<close> for a non-empty \<open>old\<close>: every occurrence, left to right,
      without overlap\<close>
  "py_replace s old new = replace_from old new 0 s"

fun max_from :: "('a \<Rightarrow> 'k::linorder) \<Rightarrow> 'a \<Rightarrow> 'a list \<Rightarrow> 'a" where
  \<comment> \<open>\<open>max(xs, key=f)\<close> keeps the first of several maximal elements\<close>
  "max_from f best [] = best"
| "max_from f best (x # xs) = max_from f (if f best < f x then x else best) xs"

section \<open>Python floats\<close>

text \<open>
  A Python float is an IEEE 754 binary64 number. It is modelled as the rational number
  that it denotes, and every operation on floats rounds its exact result to the nearest
  binary64 number, a tie to the one with the even significand. The exponent is not
  bounded: the model is that of the machine for magnitudes between \<open>2^-1022\<close> and
  \<open>2^1024\<close>, which font sizes and their products with 1.2, 1.3 and 1.5 are.
\<close>

function bit_length :: "int \<Rightarrow> nat" where
  \<comment> \<open>\<open>int.bit_length\<close> of a number that is not negative\<close>
  "bit_length n = (if n \<le> 0 then 0 else Suc (bit_length (n div 2)))"
  by pat_completeness auto
termination
  by (relation "measure nat") auto

declare bit_length.simps [simp del]

definition pow2 :: "int \<Rightarrow> rat" where
  "pow2 k = (if 0 \<le> k then 2 ^ nat k else 1 / 2 ^ nat (- k))"

definition round_half_even :: "rat \<Rightarrow> int" where
  \<comment> \<open>the nearest integer, a tie to the even one\<close>
  "round_half_even x =
     (let n = \<lfloor>x\<rfloor>; d = x - of_int n
      in if d < 1 / 2 then n else if 1 / 2 < d then n + 1 else if even n then n else n + 1)"

definition binade :: "rat \<Rightarrow> int" where
  \<comment> \<open>for \<open>x \<noteq> 0\<close>, the exponent \<open>e\<close> with \<open>2^e \<le> |x| < 2^(e+1)\<close>\<close>
  "binade x =
     (let p = fst (quotient_of \<bar>x\<bar>); q = snd (quotient_of \<bar>x\<bar>);
          d = int (bit_length p) - int (bit_length q)
      in if pow2 d \<le> \<bar>x\<bar> then d else d - 1)"

definition binary64 :: "rat \<Rightarrow> rat" where
  \<comment> \<open>the float nearest to \<open>x\<close>: a significand of 53 bits; also the float that a decimal
      literal of the value \<open>x\<close> denotes\<close>
  "binary64 x =
     (if x = 0 then 0
      else let ulp = pow2 (binade x - 52) in of_int (round_half_even (x / ulp)) * ulp)"

definition float_mul :: "rat \<Rightarrow> rat \<Rightarrow> rat" where
  \<comment> \<open>\<open>a * b\<close> on floats\<close>
  "float_mul a b = binary64 (a * b)"

definition float_div :: "rat \<Rightarrow> rat \<Rightarrow> rat" where
  \<comment> \<open>\<open>a / b\<close> on floats, for \<open>b \<noteq> 0\<close>\<close>
  "float_div a b = binary64 (a / b)"

section \<open>Regular expressions\<close>

text \<open>
  The patterns of the source use character classes, concatenation, \<open>*\<close>, \<open>+\<close> and \<open>?\<close>
  only. A pattern is matched through its derivatives, which decides whether some way of
  matching exists, as a backtracking matcher does.
\<close>

datatype atom =
    WS                \<comment> \<open>\<open>\s\<close>\<close>
  | DIGIT             \<comment> \<open>\<open>\d\<close>\<close>
  | ESC_DOT           \<comment> \<open>\<open>\.\<close>\<close>
  | ANY               \<comment> \<open>\<open>.\<close>: every character but the newline\<close>
  | RANGE char char   \<comment> \<open>\<open>[a-b]\<close>\<close>
  | ONE_OF string     \<comment> \<open>\<open>[abc]\<close>\<close>

datatype regex =
    Never
  | Eps
  | Atom atom
  | Seq regex regex
  | Alt regex regex
  | Star regex        \<comment> \<open>\<open>r*\<close>\<close>
  | Plus regex        \<comment> \<open>\<open>r+\<close>\<close>
  | Opt regex         \<comment> \<open>\<open>r?\<close>\<close>

fun atom_accepts :: "atom \<Rightarrow> char \<Rightarrow> bool" where
  "atom_accepts WS c = isspace c"
| "atom_accepts DIGIT c = isdecimal c"
| "atom_accepts ESC_DOT c = (c = CHR ''.'')"
| "atom_accepts ANY c = (c \<noteq> CHR 0x0A)"
| "atom_accepts (RANGE a b) c = (code_point a \<le> code_point c \<and> code_point c \<le> code_point b)"
| "atom_accepts (ONE_OF s) c = (c \<in> set s)"

fun nullable :: "regex \<Rightarrow> bool" where
  "nullable Never = False"
| "nullable Eps = True"
| "nullable (Atom a) = False"
| "nullable (Seq r s) = (nullable r \<and> nullable s)"
| "nullable (Alt r s) = (nullable r \<or> nullable s)"
| "nullable (Star r) = True"
| "nullable (Plus r) = nullable r"
| "nullable (Opt r) = True"

fun deriv :: "char \<Rightarrow> regex \<Rightarrow> regex" where
  "deriv c Never = Never"
| "deriv c Eps = Never"
| "deriv c (Atom a) = (if atom_accepts a c then Eps else Never)"
| "deriv c (Seq r s) =
     (if nullable r then Alt (Seq (deriv c r) s) (deriv c s) else Seq (deriv c r) s)"
| "deriv c (Alt r s) = Alt (deriv c r) (deriv c s)"
| "deriv c (Star r) = Seq (deriv c r) (Star r)"
| "deriv c (Plus r) = Seq (deriv c r) (Star r)"
| "deriv c (Opt r) = deriv c r"

fun fullmatch :: "regex \<Rightarrow> string \<Rightarrow> bool" where
  "fullmatch r [] = nullable r"
| "fullmatch r (c # cs) = fullmatch (deriv c r) cs"

definition re_match_to_end :: "regex \<Rightarrow> string \<Rightarrow> bool" where
  \<comment> \<open>\<open>re.match('^' + r + '$', text)\<close>: the whole text matches, or the text without the
      one newline that ends it does\<close>
  "re_match_to_end r txt =
     (fullmatch r txt \<or> (txt \<noteq> [] \<and> last txt = CHR 0x0A \<and> fullmatch r (butlast txt)))"

fun longest_match :: "regex \<Rightarrow> string \<Rightarrow> nat option" where
  \<comment> \<open>the length of the longest prefix that matches, if one does\<close>
  "longest_match r [] = (if nullable r then Some 0 else None)"
| "longest_match r (c # cs) =
     (case longest_match (deriv c r) cs of
        Some n \<Rightarrow> Some (Suc n)
      | None \<Rightarrow> if nullable r then Some 0 else None)"

definition re_sub_at_start :: "regex \<Rightarrow> string \<Rightarrow> string" where
  \<comment> \<open>\<open>re.sub('^' + r, '', text)\<close> for a pattern whose greedy match is its longest one:
      the match at the start of the text is removed, a text without one is unchanged\<close>
  "re_sub_at_start r txt = (case longest_match r txt of Some n \<Rightarrow> drop n txt | None \<Rightarrow> txt)"

fun count_escaped_dots :: "regex \<Rightarrow> nat" where
  \<comment> \<open>\<open>pattern.count('\.')\<close>\<close>
  "count_escaped_dots (Atom a) = (if a = ESC_DOT then 1 else 0)"
| "count_escaped_dots (Seq r s) = count_escaped_dots r + count_escaped_dots s"
| "count_escaped_dots (Alt r s) = count_escaped_dots r + count_escaped_dots s"
| "count_escaped_dots (Star r) = count_escaped_dots r"
| "count_escaped_dots (Plus r) = count_escaped_dots r"
| "count_escaped_dots (Opt r) = count_escaped_dots r"
| "count_escaped_dots r = 0"

fun mentions_dot :: "regex \<Rightarrow> bool" where
  \<comment> \<open>\<open>'.' in pattern\<close>\<close>
  "mentions_dot (Atom a) = (a = ESC_DOT \<or> a = ANY \<or> (case a of ONE_OF s \<Rightarrow> CHR ''.'' \<in> set s | _ \<Rightarrow> False))"
| "mentions_dot (Seq r s) = (mentions_dot r \<or> mentions_dot s)"
| "mentions_dot (Alt r s) = (mentions_dot r \<or> mentions_dot s)"
| "mentions_dot (Star r) = mentions_dot r"
| "mentions_dot (Plus r) = mentions_dot r"
| "mentions_dot (Opt r) = mentions_dot r"
| "mentions_dot r = False"

section \<open>Round 1A: the outline extractor\<close>

subsection \<open>Heading patterns\<close>

definition numbered_heading :: "regex \<Rightarrow> regex" where
  \<comment> \<open>\<open>^\s*(g)\s+(.+)$\<close> around the numbering group \<open>g\<close>\<close>
  "numbered_heading g =
     Seq (Star (Atom WS)) (Seq g (Seq (Plus (Atom WS)) (Plus (Atom ANY))))"

definition pat_N :: regex where
  \<comment> \<open>\<open>^\s*(\d+\.?)\s+(.+)$\<close>\<close>
  "pat_N = numbered_heading (Seq (Plus (Atom DIGIT)) (Opt (Atom ESC_DOT)))"

definition pat_NN :: regex where
  \<comment> \<open>\<open>^\s*(\d+\.\d+\.?)\s+(.+)$\<close>\<close>
  "pat_NN = numbered_heading
     (Seq (Plus (Atom DIGIT)) (Seq (Atom ESC_DOT) (Seq (Plus (Atom DIGIT)) (Opt (Atom ESC_DOT)))))"

definition pat_NNN :: regex where
  \<comment> \<open>\<open>^\s*(\d+\.\d+\.\d+\.?)\s+(.+)$\<close>\<close>
  "pat_NNN = numbered_heading
     (Seq (Plus (Atom DIGIT)) (Seq (Atom ESC_DOT) (Seq (Plus (Atom DIGIT))
       (Seq (Atom ESC_DOT) (Seq (Plus (Atom DIGIT)) (Opt (Atom ESC_DOT)))))))"

definition pat_letter :: regex where
  \<comment> \<open>\<open>^\s*([A-Z]\.?)\s+(.+)$\<close>\<close>
  "pat_letter = numbered_heading (Seq (Atom (RANGE CHR ''A'' CHR ''Z'')) (Opt (Atom ESC_DOT)))"

definition pat_roman :: regex where
  \<comment> \<open>\<open>^\s*([IVX]+\.?)\s+(.+)$\<close>\<close>
  "pat_roman = numbered_heading (Seq (Plus (Atom (ONE_OF ''IVX''))) (Opt (Atom ESC_DOT)))"

definition numbered :: "regex list" where
  \<comment> \<open>\<open>self.heading_patterns['numbered']\<close>\<close>
  "numbered = [pat_N, pat_NN, pat_NNN, pat_letter, pat_roman]"

definition heading_keywords :: "string list" where
  \<comment> \<open>\<open>self.heading_patterns['keywords']\<close>\<close>
  "heading_keywords = [''introduction'', ''conclusion'', ''abstract'', ''summary'',
     ''chapter'', ''section'', ''overview'', ''background'',
     ''methodology'', ''results'', ''discussion'', ''references'']"

definition pattern_level :: "regex \<Rightarrow> nat" where
  "pattern_level p =
     (if \<not> mentions_dot p \<or> count_escaped_dots p = 1 then 1
      else if count_escaped_dots p = 2 then 2
      else 3)"

definition clean_pattern :: regex where
  \<comment> \<open>the pattern of the heading clean-up, \<open>\s*[...]+\s*\<close>, with the class as the source
      file spells it: \<open>\d\<close>, \<open>\.\<close>, \<open>\-\<close>, the three characters U+00E2, U+20AC and
      U+00A2 (the first of them escaped) and \<open>\*\<close>; U+20AC lies outside the modelled range\<close>
  "clean_pattern =
     Seq (Star (Atom WS))
       (Seq (Plus (Alt (Atom DIGIT)
                       (Atom (ONE_OF [CHR ''.'', CHR ''-'', CHR 0xE2, CHR 0xA2, CHR ''*'']))))
            (Star (Atom WS)))"

subsection \<open>Fragments\<close>

text \<open>
  The dictionaries of the source are records; a field \<open>x_k\<close> is the key \<open>k\<close> of the
  dictionary \<open>x\<close>. Font sizes and coordinates are Python floats.
\<close>

record span =
  span_text :: string
  span_font :: string
  span_size :: rat
  span_flags :: nat

type_synonym bbox = "rat \<times> rat \<times> rat \<times> rat"

record line_info =
  info_bbox :: bbox
  info_spans :: "span list"

record block =
  block_text :: string
  block_info :: line_info
  block_page :: nat

text \<open>What the layout provider returns for a page (\<open>page.get_text("dict")\<close>).\<close>

record raw_line =
  line_bbox :: bbox
  line_spans :: "span list"

record raw_block =
  raw_type :: nat
  raw_lines :: "raw_line list"

record page =
  page_number :: nat
  page_blocks :: "raw_block list"

record font_stats =
  body_size :: rat
  sizes :: "rat list"
  size_distribution :: "(rat \<times> nat) list"

record heading =
  heading_level :: string
  heading_text :: string
  heading_page :: nat

record outline_result =
  title :: string
  outline :: "heading list"

definition round1 :: "rat \<Rightarrow> rat" where
  \<comment> \<open>\<open>round(x, 1)\<close>: the float nearest to the exact value of \<open>x\<close> rounded to one
      decimal, a tie to the even digit\<close>
  "round1 x = binary64 (of_int (round_half_even (x * 10)) / 10)"

definition format_span :: "span \<Rightarrow> span" where
  "format_span s = s\<lparr>span_size := round1 (span_size s)\<rparr>"

definition format_line :: "nat \<Rightarrow> raw_line \<Rightarrow> block list" where
  \<comment> \<open>the body of the loop over the lines of a text block\<close>
  "format_line number line =
     (let line_text = concat (map span_text (line_spans line));
          line_info = \<lparr>info_bbox = line_bbox line, info_spans = map format_span (line_spans line)\<rparr>
      in if py_strip line_text \<noteq> []
         then [\<lparr>block_text = py_strip line_text, block_info = line_info, block_page = number + 1\<rparr>]
         else [])"

definition extract_text_with_formatting :: "page \<Rightarrow> block list" where
  "extract_text_with_formatting pg =
     concat (map (\<lambda>blk. if raw_type blk = 0
                         then concat (map (format_line (page_number pg)) (raw_lines blk))
                         else [])
                 (page_blocks pg))"

fun add_count :: "rat \<Rightarrow> nat \<Rightarrow> (rat \<times> nat) list \<Rightarrow> (rat \<times> nat) list" where
  \<comment> \<open>\<open>font_sizes[size] += n\<close> on a \<open>defaultdict(int)\<close>, kept in insertion order\<close>
  "add_count k n [] = [(k, n)]"
| "add_count k n ((k', m) # kvs) =
     (if k' = k then (k', m + n) # kvs else (k', m) # add_count k n kvs)"

definition calculate_font_statistics :: "block list \<Rightarrow> font_stats option" where
  "calculate_font_statistics blocks =
     (let font_sizes =
            fold (\<lambda>blk acc. fold (\<lambda>sp acc'. add_count (span_size sp) (length (span_text sp)) acc')
                                  (info_spans (block_info blk)) acc)
                 blocks []
      in case font_sizes of
           [] \<Rightarrow> None
         | kv # kvs \<Rightarrow>
             Some \<lparr>body_size = fst (max_from snd kv kvs),
                   sizes = rev (sort (map fst font_sizes)),
                   size_distribution = font_sizes\<rparr>)"

definition main_span_of :: "span \<Rightarrow> span list \<Rightarrow> span" where
  \<comment> \<open>\<open>max(spans, key=lambda x: len(x["text"]))\<close> on the non-empty list \<open>sp # sps\<close>\<close>
  "main_span_of sp sps = max_from (\<lambda>x. length (span_text x)) sp sps"

definition check_font_characteristics :: "string \<Rightarrow> font_stats \<Rightarrow> span \<Rightarrow> py_error + (bool \<times> nat)" where
  \<comment> \<open>the statements of \<open>is_likely_heading\<close> under \<open># Check font characteristics\<close>, from
      \<open>font_size = main_span["size"]\<close> on; \<open>binary64 (12 / 10)\<close> is the literal \<open>1.2\<close>\<close>
  "check_font_characteristics txt font_stats main_span =
     (let font_size = span_size main_span;
          is_bold = (and (span_flags main_span) (2 ^ 4) \<noteq> 0)
      in if font_size > float_mul (body_size font_stats) (binary64 (12 / 10)) \<or> is_bold
         then
           (let text_lower = py_lower txt;
                has_keyword = list_ex (\<lambda>kw. py_in kw text_lower) heading_keywords;
                level = (if font_size > float_mul (body_size font_stats) (binary64 (15 / 10)) then 1
                         else if font_size > float_mul (body_size font_stats) (binary64 (13 / 10)) then 2
                         else 3)
            in if length (py_split txt) \<le> 10
               then if has_keyword \<or> is_bold \<or> py_isupper txt then Inr (True, level)
                    else (case txt of
                            [] \<Rightarrow> Inl IndexError
                          | c # cs \<Rightarrow>
                              if char_isupper c \<and> \<not> endswith txt ''.''
                              then Inr (True, level)
                              else Inr (False, 0))
               else Inr (False, 0))
         else Inr (False, 0))"

definition is_likely_heading :: "block \<Rightarrow> font_stats option \<Rightarrow> py_error + (bool \<times> nat)" where
  "is_likely_heading blk stats =
     (let txt = block_text blk in
      if length txt > 200 then Inr (False, 0)
      else case find (\<lambda>pattern. re_match_to_end pattern txt) numbered of
        Some pattern \<Rightarrow> Inr (True, pattern_level pattern)
      | None \<Rightarrow>
         (case stats of
            None \<Rightarrow> Inr (False, 0)
          | Some font_stats \<Rightarrow>
              (case info_spans (block_info blk) of
                 [] \<Rightarrow> Inr (False, 0)
               | sp # sps \<Rightarrow> check_font_characteristics txt font_stats (main_span_of sp sps))))"

text \<open>The classification by font, in the words of the specification.\<close>

definition dominant_span :: "span list \<Rightarrow> span option" where
  \<comment> \<open>the span with the most characters, the first of several\<close>
  "dominant_span spans =
     find (\<lambda>s. \<forall>t \<in> set spans. length (span_text t) \<le> length (span_text s)) spans"

definition size_ratio :: "span \<Rightarrow> font_stats \<Rightarrow> rat" where
  \<comment> \<open>\<open>sizeRatio = span.fontSize / bodySize\<close>, computed on floats\<close>
  "size_ratio sp fs = float_div (span_size sp) (body_size fs)"

definition bold :: "span \<Rightarrow> bool" where
  "bold sp = (and (span_flags sp) 16 \<noteq> 0)"

definition exceeds :: "span \<Rightarrow> font_stats \<Rightarrow> rat \<Rightarrow> bool" where
  \<comment> \<open>the size of the span is above the float product of the body size and the factor
      \<open>k\<close>, a decimal literal\<close>
  "exceeds sp fs k = (float_mul (body_size fs) (binary64 k) < span_size sp)"

definition size_level :: "span \<Rightarrow> font_stats \<Rightarrow> nat" where
  "size_level sp fs =
     (if exceeds sp fs (15 / 10) then 1 else if exceeds sp fs (13 / 10) then 2 else 3)"

definition contains_keyword :: "string \<Rightarrow> bool" where
  "contains_keyword txt = (\<exists>kw \<in> set heading_keywords. py_in kw (py_lower txt))"

definition capitalized_without_period :: "string \<Rightarrow> bool" where
  "capitalized_without_period txt =
     (case txt of [] \<Rightarrow> False | c # cs \<Rightarrow> char_isupper c \<and> \<not> endswith txt ''.'')"

definition title_step :: "block \<Rightarrow> rat \<times> string option \<Rightarrow> rat \<times> string option" where
  \<comment> \<open>the body of the loop of \<open>extract_title\<close> on \<open>(max_size, title_candidate)\<close>\<close>
  "title_step blk st =
     (case info_spans (block_info blk) of
        [] \<Rightarrow> st
      | sp # sps \<Rightarrow>
          (let main_span = main_span_of sp sps in
           if span_size main_span > fst st \<and> length (block_text blk) < 150
           then (span_size main_span, Some (block_text blk))
           else st))"

definition extract_title :: "block list \<Rightarrow> block list \<Rightarrow> string" where
  "extract_title blocks first_page_blocks =
     (if first_page_blocks = [] then ''Untitled Document''
      else case snd (fold title_step (take 10 first_page_blocks) (0, None)) of
             None \<Rightarrow> ''Untitled Document''
           | Some t \<Rightarrow> if t = [] then ''Untitled Document'' else t)"

definition digit_char :: "nat \<Rightarrow> char" where
  "digit_char d = char_of (48 + d)"

fun str_nat :: "nat \<Rightarrow> string" where
  \<comment> \<open>\<open>str(n)\<close>\<close>
  "str_nat n = (if n < 10 then [digit_char n] else str_nat (n div 10) @ [digit_char (n mod 10)])"

declare str_nat.simps [simp del]

definition clean_heading_text :: "string \<Rightarrow> string" where
  \<comment> \<open>the two statements under \<open># Clean heading text\<close>\<close>
  "clean_heading_text txt = py_strip (re_sub_at_start clean_pattern txt)"

fun extract_headings ::
  "font_stats option \<Rightarrow> block list \<Rightarrow> heading list \<Rightarrow> string set \<Rightarrow> py_error + heading list" where
  \<comment> \<open>the loop \<open>for block in all_blocks\<close> on \<open>headings\<close> and \<open>seen_headings\<close>\<close>
  "extract_headings stats [] headings seen_headings = Inr headings"
| "extract_headings stats (blk # blocks) headings seen_headings =
     (case is_likely_heading blk stats of
        Inl e \<Rightarrow> Inl e
      | Inr (is_heading, level) \<Rightarrow>
          if is_heading
          then (let heading_text = clean_heading_text (block_text blk) in
                if heading_text \<noteq> [] \<and> heading_text \<notin> seen_headings
                then extract_headings stats blocks
                       (headings @ [\<lparr>heading_level = ''H'' @ str_nat level,
                                     heading_text = heading_text,
                                     heading_page = block_page blk\<rparr>])
                       (insert heading_text seen_headings)
                else extract_headings stats blocks headings seen_headings)
          else extract_headings stats blocks headings seen_headings)"

definition process_pages :: "page list \<Rightarrow> py_error + outline_result" where
  \<comment> \<open>the body of the \<open>try\<close> of \<open>process_pdf\<close>, after the document is open\<close>
  "process_pages doc =
     (let all_blocks = concat (map extract_text_with_formatting doc);
          stats = calculate_font_statistics all_blocks;
          first_page_blocks = filter (\<lambda>b. block_page b = 1) all_blocks;
          ttl = extract_title all_blocks first_page_blocks
      in case extract_headings stats all_blocks [] {} of
           Inl e \<Rightarrow> Inl e
         | Inr headings \<Rightarrow> Inr \<lparr>title = ttl, outline = sort_key heading_page headings\<rparr>)"

definition error_result :: outline_result where
  "error_result = \<lparr>title = ''Error Processing Document'', outline = []\<rparr>"

definition process_pdf :: "(string \<Rightarrow> py_error + page list) \<Rightarrow> string \<Rightarrow> outline_result" where
  \<comment> \<open>\<open>fitz_open\<close> is the layout provider: the pages of the document at a path, or the
      exception that opening it or reading its pages raises\<close>
  "process_pdf fitz_open pdf_path =
     (case fitz_open pdf_path of
        Inl e \<Rightarrow> error_result
      | Inr doc \<Rightarrow> (case process_pages doc of Inl e \<Rightarrow> error_result | Inr res \<Rightarrow> res))"

definition path_join :: "string \<Rightarrow> string \<Rightarrow> string" where
  \<comment> \<open>\<open>os.path.join(a, b)\<close> on POSIX paths\<close>
  "path_join a b =
     (if prefix ''/'' b then b
      else if a = [] \<or> suffix ''/'' a then a @ b
      else a @ ''/'' @ b)"

fun process_directory ::
  "(string \<Rightarrow> py_error + page list) \<Rightarrow> string \<Rightarrow> string \<Rightarrow> string list
     \<Rightarrow> (string \<times> outline_result) list" where
  \<comment> \<open>the loop over \<open>os.listdir(input_dir)\<close>; the result lists the files written, in order,
      each with the result dumped into it\<close>
  "process_directory fitz_open input_dir output_dir [] = []"
| "process_directory fitz_open input_dir output_dir (filename # filenames) =
     (if endswith (py_lower filename) ''.pdf''
      then (let pdf_path = path_join input_dir filename;
                output_path = path_join output_dir (py_replace filename ''.pdf'' ''.json'');
                result = process_pdf fitz_open pdf_path
            in (output_path, result) # process_directory fitz_open input_dir output_dir filenames)
      else process_directory fitz_open input_dir output_dir filenames)"

subsection \<open>The outline, in the words of the specification\<close>

definition heading_candidate :: "font_stats option \<Rightarrow> block \<Rightarrow> heading list" where
  \<comment> \<open>the heading of a fragment that is classified as one and keeps a non-empty text\<close>
  "heading_candidate stats blk =
     (case is_likely_heading blk stats of
        Inr (True, level) \<Rightarrow>
          (if clean_heading_text (block_text blk) \<noteq> []
           then [\<lparr>heading_level = ''H'' @ str_nat level,
                  heading_text = clean_heading_text (block_text blk),
                  heading_page = block_page blk\<rparr>]
           else [])
      | _ \<Rightarrow> [])"

definition candidates :: "font_stats option \<Rightarrow> block list \<Rightarrow> heading list" where
  "candidates stats blocks = concat (map (heading_candidate stats) blocks)"

fun keep_first :: "heading list \<Rightarrow> heading list" where
  \<comment> \<open>of the headings with one text, the first\<close>
  "keep_first [] = []"
| "keep_first (h # hs) = h # keep_first (filter (\<lambda>g. heading_text g \<noteq> heading_text h) hs)"

section \<open>Round 1B: sections, relevance and ranking\<close>

subsection \<open>Subsections\<close>

record doc_subsection =
  subsection_text :: string
  subsection_summary :: string

record doc_section =
  section_title :: string
  section_page :: nat
  section_content :: string
  section_subsections :: "doc_subsection list"

definition generate_summary :: "(string \<Rightarrow> string list) \<Rightarrow> string \<Rightarrow> string" where
  \<comment> \<open>\<open>sent_tokenize\<close> is the sentence splitter of the NLTK library\<close>
  "generate_summary sent_tokenize txt =
     (let words = py_split txt in
      if length words \<le> 30 then txt
      else (let sentences = sent_tokenize txt in
            if length sentences \<le> 2 then txt
            else (case sentences of [] \<Rightarrow> txt | first_sentence # _ \<Rightarrow> first_sentence)))"

definition add_paragraph ::
  "(string \<Rightarrow> string list) \<Rightarrow> string list \<Rightarrow> doc_subsection list \<Rightarrow> doc_subsection list" where
  \<comment> \<open>the statements under \<open>if current_para:\<close>, the same in the loop and after it\<close>
  "add_paragraph sent_tokenize current_para subsections =
     (if current_para \<noteq> []
      then (let para_text = py_join '' '' current_para in
            if length (py_split para_text) > 10
            then subsections @ [\<lparr>subsection_text = para_text,
                                  subsection_summary = generate_summary sent_tokenize para_text\<rparr>]
            else subsections)
      else subsections)"

definition closes_paragraph :: "string list \<Rightarrow> string \<Rightarrow> bool" where
  \<comment> \<open>the condition of the loop, on the paragraph with \<open>sent\<close> appended\<close>
  "closes_paragraph current_para sent =
     (length current_para \<ge> 3 \<or> endswith sent '':''
      \<or> length (py_join '' '' current_para) > 200)"

fun group_sentences ::
  "(string \<Rightarrow> string list) \<Rightarrow> string list \<Rightarrow> string list \<Rightarrow> doc_subsection list \<Rightarrow> doc_subsection list"
  where
  \<comment> \<open>the loop \<open>for sent in sentences\<close> on \<open>current_para\<close> and \<open>subsections\<close>, and the
      statements after it\<close>
  "group_sentences sent_tokenize [] current_para subsections =
     add_paragraph sent_tokenize current_para subsections"
| "group_sentences sent_tokenize (sent # sentences) current_para subsections =
     (let para = current_para @ [sent] in
      if closes_paragraph para sent
      then group_sentences sent_tokenize sentences [] (add_paragraph sent_tokenize para subsections)
      else group_sentences sent_tokenize sentences para subsections)"

definition extract_subsections :: "(string \<Rightarrow> string list) \<Rightarrow> string \<Rightarrow> doc_subsection list" where
  "extract_subsections sent_tokenize content =
     group_sentences sent_tokenize (sent_tokenize content) [] []"

subsection \<open>Relevance\<close>

text \<open>
  An embedding is a vector of Python floats, taken here as real numbers. The encoder of
  the sentence-transformers library is a parameter \<open>encode\<close>; \<open>cosine_similarity\<close> is
  the function of scikit-learn, which gives 0 when one of the vectors has norm 0.
\<close>

type_synonym embedding = "real list"

definition scale :: "real \<Rightarrow> embedding \<Rightarrow> embedding" where
  "scale a v = map (\<lambda>x. a * x) v"

definition plus :: "embedding \<Rightarrow> embedding \<Rightarrow> embedding" where
  "plus v w = map2 (\<lambda>x y. x + y) v w"

definition dot :: "embedding \<Rightarrow> embedding \<Rightarrow> real" where
  "dot v w = sum_list (map2 (\<lambda>x y. x * y) v w)"

definition cosine_similarity :: "embedding \<Rightarrow> embedding \<Rightarrow> real" where
  "cosine_similarity v w =
     (if dot v v = 0 \<or> dot w w = 0 then 0 else dot v w / (sqrt (dot v v) * sqrt (dot w w)))"

definition calculate_relevance :: "embedding \<Rightarrow> embedding \<Rightarrow> embedding \<Rightarrow> real" where
  "calculate_relevance section_embedding query_embedding persona_embedding =
     (let combined_embedding = plus (scale 0.7 query_embedding) (scale 0.3 persona_embedding)
      in cosine_similarity section_embedding combined_embedding)"

subsection \<open>The pipeline\<close>

text \<open>
  In the entries of the two result lists the keys \<open>relevance\<close> and \<open>importance_rank\<close>
  are optional: \<open>None\<close> is a dictionary without the key.
\<close>

record section_entry =
  sec_document :: string
  sec_page :: nat
  sec_title :: string
  sec_relevance :: "real option"
  sec_content_preview :: string
  sec_importance_rank :: "nat option"

record subsection_entry =
  sub_document :: string
  sub_section_title :: string
  sub_page :: nat
  sub_subsection_idx :: nat
  sub_refined_text :: string
  sub_relevance :: "real option"
  sub_importance_rank :: "nat option"

record run_config =
  documents :: "string list"
  persona :: string
  job_to_be_done :: string

record metadata =
  input_documents :: "string list"
  meta_persona :: string
  meta_job_to_be_done :: string
  processing_timestamp :: string

record run_output =
  output_metadata :: metadata
  extracted_sections :: "section_entry list"
  subsection_analysis :: "subsection_entry list"

definition basename :: "string \<Rightarrow> string" where
  \<comment> \<open>\<open>os.path.basename\<close>: what follows the last \<open>/\<close>\<close>
  "basename path = rev (takeWhile (\<lambda>c. c \<noteq> CHR ''/'') (rev path))"

definition section_probe :: "doc_section \<Rightarrow> string" where
  \<comment> \<open>\<open>f"{section['title']} {section['content'][:500]}"\<close>\<close>
  "section_probe sect = section_title sect @ '' '' @ take 500 (section_content sect)"

definition score_section ::
  "(string \<Rightarrow> embedding) \<Rightarrow> embedding \<Rightarrow> embedding \<Rightarrow> string \<Rightarrow> doc_section \<Rightarrow> section_entry" where
  "score_section encode job_embedding persona_embedding doc_name sect =
     (let section_embedding = encode (section_probe sect);
          relevance = calculate_relevance section_embedding job_embedding persona_embedding
      in \<lparr>sec_document = doc_name,
          sec_page = section_page sect,
          sec_title = section_title sect,
          sec_relevance = Some relevance,
          sec_content_preview =
            (if length (section_content sect) > 200
             then take 200 (section_content sect) @ ''...''
             else section_content sect),
          sec_importance_rank = None\<rparr>)"

definition score_subsection ::
  "(string \<Rightarrow> embedding) \<Rightarrow> embedding \<Rightarrow> embedding \<Rightarrow> string \<Rightarrow> doc_section
     \<Rightarrow> nat \<times> doc_subsection \<Rightarrow> subsection_entry" where
  "score_subsection encode job_embedding persona_embedding doc_name sect p =
     (let idx = fst p; subsect = snd p;
          subsection_embedding = encode (subsection_summary subsect);
          sub_relevance = calculate_relevance subsection_embedding job_embedding persona_embedding
      in \<lparr>sub_document = doc_name,
          sub_section_title = section_title sect,
          sub_page = section_page sect,
          sub_subsection_idx = idx,
          sub_refined_text = subsection_summary subsect,
          sub_relevance = Some sub_relevance,
          sub_importance_rank = None\<rparr>)"

definition section_step ::
  "(string \<Rightarrow> embedding) \<Rightarrow> embedding \<Rightarrow> embedding \<Rightarrow> string \<Rightarrow> doc_section
     \<Rightarrow> section_entry list \<times> subsection_entry list
     \<Rightarrow> section_entry list \<times> subsection_entry list" where
  \<comment> \<open>the body of \<open>for section in sections\<close> on \<open>(all_sections, all_subsections)\<close>\<close>
  "section_step encode job_embedding persona_embedding doc_name sect st =
     (fst st @ [score_section encode job_embedding persona_embedding doc_name sect],
      fold (\<lambda>p all_subsections.
              all_subsections @ [score_subsection encode job_embedding persona_embedding doc_name sect p])
           (enumerate 0 (section_subsections sect)) (snd st))"

definition document_step ::
  "(string \<Rightarrow> embedding) \<Rightarrow> (string \<Rightarrow> doc_section list) \<Rightarrow> embedding \<Rightarrow> embedding \<Rightarrow> string
     \<Rightarrow> section_entry list \<times> subsection_entry list
     \<Rightarrow> section_entry list \<times> subsection_entry list" where
  \<comment> \<open>the body of \<open>for doc_path in documents\<close>\<close>
  "document_step encode extract_document_structure job_embedding persona_embedding doc_path st =
     (let doc_name = basename doc_path;
          sections = extract_document_structure doc_path
      in fold (section_step encode job_embedding persona_embedding doc_name) sections st)"

definition score_documents ::
  "(string \<Rightarrow> embedding) \<Rightarrow> (string \<Rightarrow> doc_section list) \<Rightarrow> run_config
     \<Rightarrow> section_entry list \<times> subsection_entry list" where
  \<comment> \<open>\<open>process_documents\<close> up to the sort: the lists \<open>all_sections\<close> and \<open>all_subsections\<close>\<close>
  "score_documents encode extract_document_structure cfg =
     (let persona_embedding = encode (persona cfg);
          job_embedding = encode (job_to_be_done cfg)
      in fold (document_step encode extract_document_structure job_embedding persona_embedding)
              (documents cfg) ([], []))"

definition sort_reverse :: "('a \<Rightarrow> real option) \<Rightarrow> 'a list \<Rightarrow> py_error + 'a list" where
  \<comment> \<open>\<open>xs.sort(key=lambda x: x["relevance"], reverse=True)\<close>: a stable sort of the reversed
      list, reversed again; the key of every element is read first\<close>
  "sort_reverse relevance xs =
     (if list_ex (\<lambda>x. relevance x = None) xs then Inl KeyError
      else Inr (rev (sort_key (\<lambda>x. the (relevance x)) (rev xs))))"

definition rank_section :: "nat \<times> section_entry \<Rightarrow> py_error + section_entry" where
  \<comment> \<open>the body of \<open>for idx, section in enumerate(all_sections)\<close>\<close>
  "rank_section p =
     (case sec_relevance (snd p) of
        None \<Rightarrow> Inl KeyError
      | Some r \<Rightarrow> Inr ((snd p)\<lparr>sec_importance_rank := Some (fst p + 1), sec_relevance := None\<rparr>))"

definition rank_subsection :: "nat \<times> subsection_entry \<Rightarrow> py_error + subsection_entry" where
  \<comment> \<open>the body of \<open>for idx, subsection in enumerate(all_subsections)\<close>\<close>
  "rank_subsection p =
     (case sub_relevance (snd p) of
        None \<Rightarrow> Inl KeyError
      | Some r \<Rightarrow> Inr ((snd p)\<lparr>sub_importance_rank := Some (fst p + 1), sub_relevance := None\<rparr>))"

fun for_each :: "('a \<Rightarrow> py_error + 'b) \<Rightarrow> 'a list \<Rightarrow> py_error + 'b list" where
  \<comment> \<open>a loop that updates every element of a list, up to the first exception\<close>
  "for_each f [] = Inr []"
| "for_each f (x # xs) =
     (case f x of
        Inl e \<Rightarrow> Inl e
      | Inr y \<Rightarrow> (case for_each f xs of Inl e \<Rightarrow> Inl e | Inr ys \<Rightarrow> Inr (y # ys)))"

definition process_documents ::
  "(string \<Rightarrow> embedding) \<Rightarrow> (string \<Rightarrow> doc_section list) \<Rightarrow> string \<Rightarrow> run_config \<Rightarrow> py_error + run_output" where
  \<comment> \<open>\<open>extract_document_structure\<close> gives the sections of the document at a path and
      \<open>now\<close> is the time stamp\<close>
  "process_documents encode extract_document_structure now cfg =
     (let scored = score_documents encode extract_document_structure cfg in
      case sort_reverse sec_relevance (fst scored) of
        Inl e \<Rightarrow> Inl e
      | Inr all_sections \<Rightarrow>
      case sort_reverse sub_relevance (snd scored) of
        Inl e \<Rightarrow> Inl e
      | Inr all_subsections \<Rightarrow>
      case for_each rank_section (enumerate 0 all_sections) of
        Inl e \<Rightarrow> Inl e
      | Inr ranked_sections \<Rightarrow>
      case for_each rank_subsection (enumerate 0 all_subsections) of
        Inl e \<Rightarrow> Inl e
      | Inr ranked_subsections \<Rightarrow>
          Inr \<lparr>output_metadata =
                 \<lparr>input_documents = map basename (documents cfg),
                  meta_persona = persona cfg,
                  meta_job_to_be_done = job_to_be_done cfg,
                  processing_timestamp = now\<rparr>,
               extracted_sections = take 15 ranked_sections,
               subsection_analysis = take 20 ranked_subsections\<rparr>)"

subsection \<open>Ranking, in the words of the specification\<close>

definition section_score :: "section_entry \<Rightarrow> real" where
  "section_score x = (case sec_relevance x of Some r \<Rightarrow> r | None \<Rightarrow> 0)"

definition subsection_score :: "subsection_entry \<Rightarrow> real" where
  "subsection_score x = (case sub_relevance x of Some r \<Rightarrow> r | None \<Rightarrow> 0)"

definition stable_descending :: "('a \<Rightarrow> real) \<Rightarrow> 'a list \<Rightarrow> 'a list \<Rightarrow> bool" where
  \<comment> \<open>\<open>ys\<close> is \<open>xs\<close> sorted by score descending, elements of one score in their order
      in \<open>xs\<close>\<close>
  "stable_descending score xs ys =
     (mset ys = mset xs \<and>
      sorted_wrt (\<lambda>a b. score a \<ge> score b) ys \<and>
      (\<forall>k. filter (\<lambda>x. score x = k) ys = filter (\<lambda>x. score x = k) xs))"

definition emit_section :: "nat \<Rightarrow> section_entry \<Rightarrow> section_entry" where
  \<comment> \<open>the record at position \<open>i\<close>: rank \<open>i + 1\<close>, no score\<close>
  "emit_section i x = x\<lparr>sec_importance_rank := Some (i + 1), sec_relevance := None\<rparr>"

definition emit_subsection :: "nat \<Rightarrow> subsection_entry \<Rightarrow> subsection_entry" where
  "emit_subsection i x = x\<lparr>sub_importance_rank := Some (i + 1), sub_relevance := None\<rparr>"

section \<open>Example inputs\<close>

definition example_span :: "string \<Rightarrow> rat \<Rightarrow> nat \<Rightarrow> span" where
  "example_span t sz fl = \<lparr>span_text = t, span_font = ''Helvetica'', span_size = sz, span_flags = fl\<rparr>"

definition example_block :: "string \<Rightarrow> rat \<Rightarrow> nat \<Rightarrow> nat \<Rightarrow> block" where
  "example_block t sz fl pg =
     \<lparr>block_text = t,
      block_info = \<lparr>info_bbox = (0, 0, 0, 0), info_spans = [example_span t sz fl]\<rparr>,
      block_page = pg\<rparr>"

definition example_stats :: font_stats where
  "example_stats = \<lparr>body_size = 10, sizes = [24, 14, 12, 10], size_distribution = [(10, 15)]\<rparr>"

definition example_page :: page where
  "example_page =
     \<lparr>page_number = 0,
      page_blocks =
        [\<lparr>raw_type = 0,
          raw_lines = [\<lparr>line_bbox = (0, 0, 0, 0), line_spans = [example_span ''  '' 10 0]\<rparr>,
                       \<lparr>line_bbox = (0, 0, 0, 0), line_spans = [example_span '' Plain title '' 13 0]\<rparr>]\<rparr>,
         \<lparr>raw_type = 1, raw_lines = []\<rparr>]\<rparr>"

definition example_page_block :: block where
  "example_page_block =
     \<lparr>block_text = ''Plain title'',
      block_info = \<lparr>info_bbox = (0, 0, 0, 0), info_spans = [example_span '' Plain title '' 13 0]\<rparr>,
      block_page = 1\<rparr>"

definition methodology_block :: block where
  \<comment> \<open>\<open>Methodology\<close> in two spans: an initial of 20 pt and the rest in bold 11 pt\<close>
  "methodology_block =
     \<lparr>block_text = ''Methodology'',
      block_info = \<lparr>info_bbox = (0, 0, 0, 0),
                    info_spans = [example_span ''M'' 20 0, example_span ''ethodology'' 11 16]\<rparr>,
      block_page = 1\<rparr>"

definition results_span :: span where
  \<comment> \<open>a span of size \<open>14.4\<close> that is not bold\<close>
  "results_span = example_span ''Results'' (binary64 (144 / 10)) 0"

definition results_block :: block where
  "results_block =
     \<lparr>block_text = ''Results'',
      block_info = \<lparr>info_bbox = (0, 0, 0, 0), info_spans = [results_span]\<rparr>,
      block_page = 1\<rparr>"

definition results_stats :: font_stats where
  \<comment> \<open>a body size of \<open>12.0\<close>\<close>
  "results_stats =
     \<lparr>body_size = 12, sizes = [binary64 (144 / 10), 12],
      size_distribution = [(12, 400), (binary64 (144 / 10), 7)]\<rparr>"

definition long_numbered_block :: block where
  "long_numbered_block = example_block (''1. '' @ replicate 200 CHR ''x'') 14 0 1"

definition example_line :: "string \<Rightarrow> rat \<Rightarrow> nat \<Rightarrow> raw_line" where
  "example_line t sz fl = \<lparr>line_bbox = (0, 0, 0, 0), line_spans = [example_span t sz fl]\<rparr>"

definition example_doc :: "page list" where
  "example_doc =
     [\<lparr>page_number = 0,
       page_blocks =
         [\<lparr>raw_type = 0,
           raw_lines = [example_line ''Sample Report'' 24 0,
                        example_line ''1. Introduction'' 14 0,
                        example_line ''This is the body text of the sample document.'' 10 0]\<rparr>,
          \<lparr>raw_type = 0,
           raw_lines = [example_line ''1.1 Background'' 12 0,
                        example_line ''More body text, set in the same size as before.'' 10 0]\<rparr>]\<rparr>,
      \<lparr>page_number = 1,
       page_blocks =
         [\<lparr>raw_type = 0,
           raw_lines = [example_line ''3 Introduction'' 14 0,
                        example_line ''2. Methods'' 14 0,
                        example_line ''the last line of the body.'' 10 0]\<rparr>]\<rparr>]"

definition example_open :: "string \<Rightarrow> py_error + page list" where
  "example_open path =
     (if path = ''/app/input/report.pdf'' then Inr example_doc else Inl DocumentOpenError)"

section \<open>Properties of the heading classifier\<close>

lemma check_font_no_error:
  "t \<noteq> [] \<Longrightarrow> check_font_characteristics t fs sp \<noteq> Inl e"
  by (cases t) (simp_all add: check_font_characteristics_def Let_def)

lemma is_likely_heading_no_error:
  assumes "block_text blk \<noteq> []"
  shows "is_likely_heading blk stats \<noteq> Inl e"
  using check_font_no_error[OF assms]
  by (simp add: is_likely_heading_def Let_def split: option.split list.split)

lemma is_likely_heading_total:
  assumes "block_text blk \<noteq> []"
  shows "\<exists>r. is_likely_heading blk stats = Inr r"
  using is_likely_heading_no_error[OF assms]
  by (cases "is_likely_heading blk stats") auto

lemma pattern_levels:
  "pattern_level pat_N = 1" "pattern_level pat_NN = 2" "pattern_level pat_NNN = 3"
  "pattern_level pat_letter = 1" "pattern_level pat_roman = 1"
  by code_simp+

lemma example_block_sel [simp]:
  "block_text (example_block t sz fl pg) = t"
  "block_page (example_block t sz fl pg) = pg"
  "info_spans (block_info (example_block t sz fl pg)) = [example_span t sz fl]"
  by (simp_all add: example_block_def)

lemma example_span_sel [simp]:
  "span_size (example_span t sz fl) = sz"
  "span_flags (example_span t sz fl) = fl"
  "span_text (example_span t sz fl) = t"
  by (simp_all add: example_span_def)

lemma main_span_single [simp]: "main_span_of sp [] = sp"
  by (simp add: main_span_of_def)

text \<open>
  Claim C9: a fragment whose text is longer than 200 characters is classified as not a
  heading, whatever its font size, its boldness, the numbering pattern it matches and the
  font statistics are.
\<close>

theorem C9_long_fragment_is_no_heading:
  "length (block_text blk) > 200 \<Longrightarrow> is_likely_heading blk stats = Inr (False, 0)"
  by (simp add: is_likely_heading_def)

text \<open>
  A bold fragment of 250 characters in a 30 pt font that starts with \<open>1.\<close> is not a
  heading.
\<close>

theorem C9_long_fragment_witness:
  "length (block_text (example_block (''1. '' @ replicate 247 CHR ''A'') 30 16 1)) = 250 \<and>
   is_likely_heading (example_block (''1. '' @ replicate 247 CHR ''A'') 30 16 1) (Some example_stats)
     = Inr (False, 0)"
  using C9_long_fragment_is_no_heading
          [of "example_block (''1. '' @ replicate 247 CHR ''A'') 30 16 1" "Some example_stats"]
  by simp

lemma format_line_nonempty: "blk \<in> set (format_line n line) \<Longrightarrow> block_text blk \<noteq> []"
  by (auto simp: format_line_def Let_def split: if_splits)

lemma extract_text_nonempty:
  "blk \<in> set (extract_text_with_formatting pg) \<Longrightarrow> block_text blk \<noteq> []"
  by (auto simp: extract_text_with_formatting_def split: if_splits dest: format_line_nonempty)

text \<open>
  Claim C10: every block that the fragment reader produces for a page has a non-empty
  text, and the classifier returns a result on it (the read of the first character of the
  text, the one place where the classifier can raise, finds a character).
\<close>

theorem C10_reader_blocks_classified:
  "blk \<in> set (extract_text_with_formatting pg) \<Longrightarrow>
   block_text blk \<noteq> [] \<and> (\<exists>r. is_likely_heading blk stats = Inr r)"
  using extract_text_nonempty is_likely_heading_total by blast

lemma example_page_blocks:
  "extract_text_with_formatting example_page = [example_page_block]"
  unfolding example_page_block_def by code_simp

text \<open>
  A page with a blank line and a line \<open>Plain title\<close>: the reader produces one block, and
  the classifier returns on it.
\<close>

theorem C10_reader_blocks_witness:
  "example_page_block \<in> set (extract_text_with_formatting example_page) \<and>
   block_text example_page_block \<noteq> [] \<and>
   (\<exists>r. is_likely_heading example_page_block (Some example_stats) = Inr r)"
proof -
  have "example_page_block \<in> set (extract_text_with_formatting example_page)"
    by (simp add: example_page_blocks)
  from this C10_reader_blocks_classified [OF this, of "Some example_stats"]
  show ?thesis by simp
qed

lemma check_font_heading_iff:
  "check_font_characteristics t fs sp = Inr (True, lvl) \<longleftrightarrow>
     (exceeds sp fs (12 / 10) \<or> bold sp) \<and>
     lvl = size_level sp fs \<and>
     length (py_split t) \<le> 10 \<and>
     (contains_keyword t \<or> bold sp \<or> py_isupper t \<or> capitalized_without_period t)"
  by (cases t)
     (auto simp add: check_font_characteristics_def Let_def exceeds_def size_level_def
        bold_def contains_keyword_def capitalized_without_period_def list_ex_iff)

lemma find_first:
  "\<forall>t \<in> set pre. \<not> P t \<Longrightarrow> P m \<Longrightarrow> find P (pre @ m # post) = Some m"
  by (induction pre) simp_all

lemma max_from_split:
  assumes "\<forall>t \<in> set pre. f t < f b" and "\<forall>t \<in> set post. f t \<le> f b"
  shows "\<exists>pre' post'. pre @ b # post @ xs = pre' @ max_from f b xs # post' \<and>
           (\<forall>t \<in> set pre'. f t < f (max_from f b xs)) \<and>
           (\<forall>t \<in> set post'. f t \<le> f (max_from f b xs))"
  using assms
proof (induction xs arbitrary: pre b post)
  case Nil
  then show ?case by auto
next
  case (Cons x xs)
  show ?case
  proof (cases "f b < f x")
    case True
    have "\<forall>t \<in> set (pre @ b # post). f t < f x"
      using Cons.prems True by auto
    from Cons.IH[of "pre @ b # post" x "[]", OF this] True show ?thesis
      by simp
  next
    case False
    have "\<forall>t \<in> set (post @ [x]). f t \<le> f b"
      using Cons.prems False by auto
    from Cons.IH[of pre b "post @ [x]", OF Cons.prems(1) this] False show ?thesis
      by simp
  qed
qed

text \<open>
  The span that the classifier takes, \<open>max(spans, key=...)\<close>, is the dominant span: the
  first of the spans with the most characters.
\<close>

lemma dominant_span_main: "dominant_span (sp # sps) = Some (main_span_of sp sps)"
proof -
  let ?f = "\<lambda>s. length (span_text s)"
  let ?m = "main_span_of sp sps"
  obtain pre post where split: "sp # sps = pre @ ?m # post"
    and pre: "\<forall>t \<in> set pre. ?f t < ?f ?m" and post: "\<forall>t \<in> set post. ?f t \<le> ?f ?m"
    using max_from_split[of "[]" ?f sp "[]" sps] by (auto simp: main_span_of_def)
  let ?P = "\<lambda>s. \<forall>t \<in> set (pre @ ?m # post). ?f t \<le> ?f s"
  have "\<forall>t \<in> set pre. \<not> ?P t"
    using pre by (auto simp: not_le)
  moreover have "?P ?m"
    using pre post by (auto simp: less_imp_le)
  ultimately have "find ?P (pre @ ?m # post) = Some ?m"
    by (rule find_first)
  then show ?thesis
    by (simp add: dominant_span_def split)
qed

lemma dominant_span_Some:
  assumes "dominant_span spans = Some m"
  shows "\<exists>sp sps. spans = sp # sps \<and> m = main_span_of sp sps"
proof (cases spans)
  case Nil
  with assms show ?thesis by (simp add: dominant_span_def)
next
  case (Cons sp sps)
  with assms dominant_span_main[of sp sps] show ?thesis by simp
qed

lemma no_pattern_heading:
  assumes "find (\<lambda>p. re_match_to_end p (block_text blk)) numbered = None"
    and "info_spans (block_info blk) = sp # sps"
  shows "is_likely_heading blk (Some fs) =
     (if length (block_text blk) > 200 then Inr (False, 0)
      else check_font_characteristics (block_text blk) fs (main_span_of sp sps))"
  using assms by (simp add: is_likely_heading_def Let_def)

lemma methodology_no_pattern:
  "find (\<lambda>p. re_match_to_end p ''Methodology'') numbered = None"
  by code_simp

lemma methodology_words: "length (py_split ''Methodology'') \<le> 10"
  by code_simp

lemma methodology_sizes:
  "\<not> float_mul 10 (binary64 (15 / 10)) < 11" "\<not> float_mul 10 (binary64 (13 / 10)) < 11"
  by code_simp+

text \<open>
  Claim C8, amended: when font statistics are available and no numbering pattern
  matches, a fragment with a dominant span \<open>m\<close> (the first of its spans with the most
  characters) is classified as a heading of level \<open>lvl\<close> exactly when it has at most 200
  characters, the size of \<open>m\<close> is above the float product \<open>body_size * 1.2\<close> or \<open>m\<close> is
  bold, \<open>lvl\<close> is 1 for a size above \<open>body_size * 1.5\<close>, 2 for a size above
  \<open>body_size * 1.3\<close> and 3 otherwise, the text has at most 10 words, and it contains a
  keyword, or \<open>m\<close> is bold, or the text is upper-case, or it starts with an upper-case
  character and does not end with a period. In particular a fragment \<open>Methodology\<close>
  whose dominant span is bold and of size 11, in a document of body size 10, is a heading
  (of level 3).
\<close>

theorem C8_font_classification:
  assumes "find (\<lambda>p. re_match_to_end p (block_text blk)) numbered = None"
    and "dominant_span (info_spans (block_info blk)) = Some m"
  shows "(is_likely_heading blk (Some fs) = Inr (True, lvl) \<longleftrightarrow>
            length (block_text blk) \<le> 200 \<and>
            (exceeds m fs (12 / 10) \<or> bold m) \<and>
            lvl = size_level m fs \<and>
            length (py_split (block_text blk)) \<le> 10 \<and>
            (contains_keyword (block_text blk) \<or> bold m \<or>
             py_isupper (block_text blk) \<or> capitalized_without_period (block_text blk))) \<and>
         (block_text blk = ''Methodology'' \<and> body_size fs = 10 \<and> span_size m = 11 \<and> bold m \<longrightarrow>
            is_likely_heading blk (Some fs) = Inr (True, 3))"
proof -
  obtain sp sps where spans: "info_spans (block_info blk) = sp # sps"
    and m: "m = main_span_of sp sps"
    using dominant_span_Some[OF assms(2)] by blast
  have general: "is_likely_heading blk (Some fs) = Inr (True, lvl) \<longleftrightarrow>
            length (block_text blk) \<le> 200 \<and>
            (exceeds m fs (12 / 10) \<or> bold m) \<and>
            lvl = size_level m fs \<and>
            length (py_split (block_text blk)) \<le> 10 \<and>
            (contains_keyword (block_text blk) \<or> bold m \<or>
             py_isupper (block_text blk) \<or> capitalized_without_period (block_text blk))"
    for lvl
    unfolding no_pattern_heading[OF assms(1) spans] m
    using check_font_heading_iff by auto
  have example: "is_likely_heading blk (Some fs) = Inr (True, 3)"
    if "block_text blk = ''Methodology''" "body_size fs = 10" "span_size m = 11" "bold m"
  proof -
    have "size_level m fs = 3"
      using that methodology_sizes by (simp add: size_level_def exceeds_def)
    then show ?thesis
      using that methodology_words by (simp add: general)
  qed
  show ?thesis using general example by blast
qed

text \<open>
  The fragment \<open>Methodology\<close> in two spans, body size 10: the dominant span is the
  second one, of ten characters, bold and of size 11, not above \<open>10 * 1.2\<close>; the fragment
  is a heading of level 3 (the first span, of size 20, would give level 1).
\<close>

theorem C8_font_classification_witness:
  "dominant_span (info_spans (block_info methodology_block)) = Some (example_span ''ethodology'' 11 16) \<and>
   is_likely_heading methodology_block (Some example_stats) = Inr (True, 3) \<and>
   \<not> exceeds (example_span ''ethodology'' 11 16) example_stats (12 / 10) \<and>
   bold (example_span ''ethodology'' 11 16)"
proof -
  have a: "find (\<lambda>p. re_match_to_end p (block_text methodology_block)) numbered = None"
    by (simp add: methodology_block_def methodology_no_pattern)
  have b: "dominant_span (info_spans (block_info methodology_block)) =
             Some (example_span ''ethodology'' 11 16)"
    unfolding methodology_block_def by code_simp
  have d: "bold (example_span ''ethodology'' 11 16)"
    by (simp add: bold_def)
  have e: "\<not> exceeds (example_span ''ethodology'' 11 16) example_stats (12 / 10)"
    by code_simp
  have t: "block_text methodology_block = ''Methodology''" "body_size example_stats = 10"
    by (simp_all add: methodology_block_def example_stats_def)
  from C8_font_classification [OF a b, of example_stats 3] b d e t show ?thesis
    by simp
qed

text \<open>
  Claim C8 as stated, a heading only if the size ratio exceeds 1.2 or the span is bold,
  fails on the fragment \<open>Results\<close> of size 14.4 in a document of body size 12.0: no
  numbering pattern matches, the span is not bold and the ratio \<open>14.4 / 12.0\<close> is the
  float 1.2, not above it; but the product \<open>12.0 * 1.2\<close> is the float below 14.4, and
  the fragment is a heading of level 3.
\<close>

theorem C8_size_ratio_counterexample:
  "\<not> re_match_to_end pat_N (block_text results_block) \<and>
   \<not> re_match_to_end pat_NN (block_text results_block) \<and>
   \<not> re_match_to_end pat_NNN (block_text results_block) \<and>
   \<not> re_match_to_end pat_letter (block_text results_block) \<and>
   \<not> re_match_to_end pat_roman (block_text results_block) \<and>
   dominant_span (info_spans (block_info results_block)) = Some results_span \<and>
   span_size results_span = binary64 (144 / 10) \<and>
   body_size results_stats = 12 \<and>
   \<not> bold results_span \<and>
   \<not> binary64 (12 / 10) < size_ratio results_span results_stats \<and>
   is_likely_heading results_block (Some results_stats) = Inr (True, 3)"
  by code_simp

lemma numbered_first_match:
  assumes "length (block_text blk) \<le> 200"
    and "find (\<lambda>p. re_match_to_end p (block_text blk)) numbered = Some p"
  shows "is_likely_heading blk stats = Inr (True, pattern_level p)"
  using assms by (simp add: is_likely_heading_def Let_def)

lemma introduction_matches: "re_match_to_end pat_N ''1. Introduction''"
  by code_simp

lemma background_matches:
  "\<not> re_match_to_end pat_N ''2.3 Background''" "re_match_to_end pat_NN ''2.3 Background''"
  by code_simp+

lemma cleaned_examples:
  "clean_heading_text ''1. Introduction'' = ''Introduction''"
  "clean_heading_text ''2.3 Background'' = ''Background''"
  by code_simp+

lemma str_nat_small: "str_nat 1 = ''1''" "str_nat 2 = ''2''" "str_nat 3 = ''3''"
  by code_simp+

lemma extract_headings_single:
  assumes "is_likely_heading blk stats = Inr (True, level)"
    and "clean_heading_text (block_text blk) \<noteq> []"
  shows "extract_headings stats [blk] [] {} =
     Inr [\<lparr>heading_level = ''H'' @ str_nat level,
           heading_text = clean_heading_text (block_text blk),
           heading_page = block_page blk\<rparr>]"
  using assms by (simp add: Let_def)

text \<open>
  Claim C3, amended: for a fragment of at most 200 characters, the first of the five
  numbering patterns that matches, in the order \<open>N.\<close>, \<open>N.N\<close>, \<open>N.N.N\<close>, letter, Roman
  numeral, decides the level: 1 for \<open>N.\<close>, 2 for \<open>N.N\<close>, 3 for \<open>N.N.N\<close>, 1 for a letter
  and 1 for a Roman numeral. A fragment \<open>1. Introduction\<close> becomes the heading H1
  \<open>Introduction\<close> and a fragment \<open>2.3 Background\<close> the heading H2 \<open>Background\<close>.
\<close>

theorem C3_numbering_levels:
  assumes "length (block_text blk) \<le> 200"
  shows
   "(re_match_to_end pat_N (block_text blk) \<longrightarrow> is_likely_heading blk stats = Inr (True, 1)) \<and>
    (\<not> re_match_to_end pat_N (block_text blk) \<and> re_match_to_end pat_NN (block_text blk) \<longrightarrow>
       is_likely_heading blk stats = Inr (True, 2)) \<and>
    (\<not> re_match_to_end pat_N (block_text blk) \<and> \<not> re_match_to_end pat_NN (block_text blk) \<and>
     re_match_to_end pat_NNN (block_text blk) \<longrightarrow>
       is_likely_heading blk stats = Inr (True, 3)) \<and>
    (\<not> re_match_to_end pat_N (block_text blk) \<and> \<not> re_match_to_end pat_NN (block_text blk) \<and>
     \<not> re_match_to_end pat_NNN (block_text blk) \<and> re_match_to_end pat_letter (block_text blk) \<longrightarrow>
       is_likely_heading blk stats = Inr (True, 1)) \<and>
    (\<not> re_match_to_end pat_N (block_text blk) \<and> \<not> re_match_to_end pat_NN (block_text blk) \<and>
     \<not> re_match_to_end pat_NNN (block_text blk) \<and> \<not> re_match_to_end pat_letter (block_text blk) \<and>
     re_match_to_end pat_roman (block_text blk) \<longrightarrow>
       is_likely_heading blk stats = Inr (True, 1)) \<and>
    (block_text blk = ''1. Introduction'' \<longrightarrow>
       extract_headings stats [blk] [] {} =
         Inr [\<lparr>heading_level = ''H1'', heading_text = ''Introduction'',
               heading_page = block_page blk\<rparr>]) \<and>
    (block_text blk = ''2.3 Background'' \<longrightarrow>
       extract_headings stats [blk] [] {} =
         Inr [\<lparr>heading_level = ''H2'', heading_text = ''Background'',
               heading_page = block_page blk\<rparr>])"
proof -
  have first: "is_likely_heading blk stats = Inr (True, pattern_level p)"
    if "find (\<lambda>p. re_match_to_end p (block_text blk)) numbered = Some p" for p
    using numbered_first_match[OF assms that] .
  have 1: "is_likely_heading blk stats = Inr (True, 1)"
    if "re_match_to_end pat_N (block_text blk)"
    using first[of pat_N] that by (simp add: numbered_def pattern_levels)
  have 2: "is_likely_heading blk stats = Inr (True, 2)"
    if "\<not> re_match_to_end pat_N (block_text blk)" "re_match_to_end pat_NN (block_text blk)"
    using first[of pat_NN] that by (simp add: numbered_def pattern_levels)
  have 3: "is_likely_heading blk stats = Inr (True, 3)"
    if "\<not> re_match_to_end pat_N (block_text blk)" "\<not> re_match_to_end pat_NN (block_text blk)"
       "re_match_to_end pat_NNN (block_text blk)"
    using first[of pat_NNN] that by (simp add: numbered_def pattern_levels)
  have 4: "is_likely_heading blk stats = Inr (True, 1)"
    if "\<not> re_match_to_end pat_N (block_text blk)" "\<not> re_match_to_end pat_NN (block_text blk)"
       "\<not> re_match_to_end pat_NNN (block_text blk)" "re_match_to_end pat_letter (block_text blk)"
    using first[of pat_letter] that by (simp add: numbered_def pattern_levels)
  have 5: "is_likely_heading blk stats = Inr (True, 1)"
    if "\<not> re_match_to_end pat_N (block_text blk)" "\<not> re_match_to_end pat_NN (block_text blk)"
       "\<not> re_match_to_end pat_NNN (block_text blk)" "\<not> re_match_to_end pat_letter (block_text blk)"
       "re_match_to_end pat_roman (block_text blk)"
    using first[of pat_roman] that by (simp add: numbered_def pattern_levels)
  have intro: "extract_headings stats [blk] [] {} =
         Inr [\<lparr>heading_level = ''H1'', heading_text = ''Introduction'',
               heading_page = block_page blk\<rparr>]"
    if t: "block_text blk = ''1. Introduction''"
  proof -
    have h: "is_likely_heading blk stats = Inr (True, 1)"
      using 1 introduction_matches by (simp add: t)
    have c: "clean_heading_text (block_text blk) = ''Introduction''"
      by (simp only: t cleaned_examples)
    have "clean_heading_text (block_text blk) \<noteq> []"
      by (simp add: c)
    from extract_headings_single[OF h this] show ?thesis
      by (simp only: c str_nat_small append_Cons append_Nil)
  qed
  have bg: "extract_headings stats [blk] [] {} =
         Inr [\<lparr>heading_level = ''H2'', heading_text = ''Background'',
               heading_page = block_page blk\<rparr>]"
    if t: "block_text blk = ''2.3 Background''"
  proof -
    have h: "is_likely_heading blk stats = Inr (True, 2)"
      using 2 background_matches by (simp add: t)
    have c: "clean_heading_text (block_text blk) = ''Background''"
      by (simp only: t cleaned_examples)
    have "clean_heading_text (block_text blk) \<noteq> []"
      by (simp add: c)
    from extract_headings_single[OF h this] show ?thesis
      by (simp only: c str_nat_small append_Cons append_Nil)
  qed
  show ?thesis using 1 2 3 4 5 intro bg by blast
qed

text \<open>
  Claim C3 as stated, for every fragment whose text matches a numbering pattern, fails
  on a fragment of 203 characters that starts with \<open>1.\<close>: it matches the first pattern
  and is not a heading.
\<close>

theorem C3_long_numbered_counterexample:
  "re_match_to_end pat_N (block_text long_numbered_block) \<and>
   is_likely_heading long_numbered_block (Some example_stats) = Inr (False, 0)"
proof -
  have "re_match_to_end pat_N (''1. '' @ replicate 200 CHR ''x'')"
    by code_simp
  moreover have "is_likely_heading long_numbered_block (Some example_stats) = Inr (False, 0)"
    by (simp add: is_likely_heading_def long_numbered_block_def)
  ultimately show ?thesis
    by (simp add: long_numbered_block_def)
qed

text \<open>
  The fragment \<open>2.3 Background\<close>: 14 characters, level 2, heading H2 \<open>Background\<close>.
\<close>

theorem C3_numbering_levels_witness:
  "length (block_text (example_block ''2.3 Background'' 12 0 1)) \<le> 200 \<and>
   is_likely_heading (example_block ''2.3 Background'' 12 0 1) (Some example_stats) = Inr (True, 2) \<and>
   extract_headings (Some example_stats) [example_block ''2.3 Background'' 12 0 1] [] {} =
     Inr [\<lparr>heading_level = ''H2'', heading_text = ''Background'', heading_page = 1\<rparr>]"
proof -
  let ?b = "example_block ''2.3 Background'' 12 0 1"
  have len: "length (block_text ?b) \<le> 200"
    by simp
  have t: "block_text ?b = ''2.3 Background''" and p: "block_page ?b = 1"
    by simp_all
  have m: "\<not> re_match_to_end pat_N (block_text ?b)" "re_match_to_end pat_NN (block_text ?b)"
    by (simp_all only: t background_matches not_False_eq_True)
  from C3_numbering_levels [OF len, of "Some example_stats"] m t
  have "is_likely_heading ?b (Some example_stats) = Inr (True, 2)"
    and "extract_headings (Some example_stats) [?b] [] {} =
           Inr [\<lparr>heading_level = ''H2'', heading_text = ''Background'',
                 heading_page = block_page ?b\<rparr>]"
    by blast+
  with len show ?thesis
    by (simp only: p simp_thms)
qed

section \<open>Properties of the outline\<close>

lemma set_keep_first: "set (keep_first hs) \<subseteq> set hs"
  by (induction hs rule: keep_first.induct) auto

lemma distinct_keep_first: "distinct (map heading_text (keep_first hs))"
proof (induction hs rule: keep_first.induct)
  case 1
  show ?case by simp
next
  case (2 h hs)
  have "heading_text h \<notin> heading_text ` set (keep_first (filter (\<lambda>g. heading_text g \<noteq> heading_text h) hs))"
    using set_keep_first[of "filter (\<lambda>g. heading_text g \<noteq> heading_text h) hs"] by auto
  with 2 show ?case by simp
qed

lemma candidate_text_nonempty:
  "h \<in> set (candidates stats blocks) \<Longrightarrow> heading_text h \<noteq> []"
  by (auto simp: candidates_def heading_candidate_def split: sum.splits prod.splits bool.splits if_splits)

lemma candidates_Cons:
  "candidates stats (blk # blocks) = heading_candidate stats blk @ candidates stats blocks"
  by (simp add: candidates_def)

lemma filter_filter_text:
  "filter (\<lambda>g. heading_text g \<noteq> t) (filter (\<lambda>g. heading_text g \<notin> seen) hs) =
   filter (\<lambda>g. heading_text g \<notin> insert t seen) hs"
  by (induction hs) auto

lemma extract_headings_acc:
  "extract_headings stats blocks acc seen = Inr out \<Longrightarrow>
   out = acc @ keep_first (filter (\<lambda>h. heading_text h \<notin> seen) (candidates stats blocks))"
proof (induction blocks arbitrary: acc seen)
  case Nil
  then show ?case by (simp add: candidates_def)
next
  case (Cons blk blocks)
  show ?case
  proof (cases "is_likely_heading blk stats")
    case (Inl e)
    with Cons.prems show ?thesis by simp
  next
    case (Inr r)
    obtain is_heading level where r: "r = (is_heading, level)" by (cases r)
    let ?t = "clean_heading_text (block_text blk)"
    let ?h = "\<lparr>heading_level = ''H'' @ str_nat level, heading_text = ?t,
               heading_page = block_page blk\<rparr>"
    show ?thesis
    proof (cases "is_heading \<and> ?t \<noteq> [] \<and> ?t \<notin> seen")
      case True
      then have c: "heading_candidate stats blk = [?h]"
        by (simp add: heading_candidate_def Inr r)
      from True Cons.prems have "extract_headings stats blocks (acc @ [?h]) (insert ?t seen) = Inr out"
        by (simp add: Inr r Let_def)
      from Cons.IH[OF this] True show ?thesis
        by (simp add: candidates_Cons c filter_filter_text conj_commute)
    next
      case False
      then have c: "filter (\<lambda>h. heading_text h \<notin> seen) (heading_candidate stats blk) = []"
        by (auto simp add: heading_candidate_def Inr r split: bool.splits)
      from False Cons.prems have "extract_headings stats blocks acc seen = Inr out"
        by (auto simp add: Inr r Let_def split: if_splits)
      from Cons.IH[OF this] show ?thesis
        by (simp add: candidates_Cons c)
    qed
  qed
qed

lemma extract_headings_keep_first:
  "extract_headings stats blocks [] {} = Inr out \<Longrightarrow> out = keep_first (candidates stats blocks)"
  using extract_headings_acc[of stats blocks "[]" "{}" out] by simp

lemma extract_headings_total:
  "(\<And>blk. blk \<in> set blocks \<Longrightarrow> block_text blk \<noteq> []) \<Longrightarrow>
   \<exists>out. extract_headings stats blocks acc seen = Inr out"
proof (induction blocks arbitrary: acc seen)
  case Nil
  show ?case by simp
next
  case (Cons blk blocks)
  have "block_text blk \<noteq> []" using Cons.prems by simp
  then obtain r where r: "is_likely_heading blk stats = Inr r"
    using is_likely_heading_total by blast
  have ih: "\<exists>out. extract_headings stats blocks acc' seen' = Inr out" for acc' seen'
    using Cons.IH Cons.prems by simp
  show ?case
    using ih by (cases r) (simp add: r Let_def)
qed

lemma reader_blocks_nonempty:
  "blk \<in> set (concat (map extract_text_with_formatting doc)) \<Longrightarrow> block_text blk \<noteq> []"
  using extract_text_nonempty by auto

lemma process_pages_eq:
  "process_pages doc =
     (let blocks = concat (map extract_text_with_formatting doc);
          stats = calculate_font_statistics blocks
      in Inr \<lparr>title = extract_title blocks (filter (\<lambda>b. block_page b = 1) blocks),
              outline = sort_key heading_page (keep_first (candidates stats blocks))\<rparr>)"
proof -
  let ?blocks = "concat (map extract_text_with_formatting doc)"
  let ?stats = "calculate_font_statistics ?blocks"
  obtain out where out: "extract_headings ?stats ?blocks [] {} = Inr out"
    using extract_headings_total[of ?blocks ?stats "[]" "{}"] reader_blocks_nonempty by blast
  from extract_headings_keep_first[OF out] out show ?thesis
    by (simp add: process_pages_def Let_def)
qed

lemma sorted_outline: "sorted (map heading_page (sort_key heading_page hs))"
  by (rule sorted_sort_key)

lemma distinct_text_sort:
  "distinct (map heading_text (sort_key heading_page hs)) = distinct (map heading_text hs)"
  by (simp add: distinct_map)

lemma keep_first_text_nonempty:
  "h \<in> set (keep_first (candidates stats blocks)) \<Longrightarrow> heading_text h \<noteq> []"
  using set_keep_first candidate_text_nonempty by blast

lemma process_pdf_cases:
  "process_pdf fitz_open pdf_path =
     (case fitz_open pdf_path of
        Inl e \<Rightarrow> error_result
      | Inr doc \<Rightarrow>
          (let blocks = concat (map extract_text_with_formatting doc);
               stats = calculate_font_statistics blocks
           in \<lparr>title = extract_title blocks (filter (\<lambda>b. block_page b = 1) blocks),
               outline = sort_key heading_page (keep_first (candidates stats blocks))\<rparr>))"
  by (simp add: process_pdf_def process_pages_eq Let_def split: sum.split)

text \<open>
  Claim C2: in the outline of every document the pages of the headings do not decrease,
  no two headings have the same text and no heading has an empty text. For a document
  that opens, the outline holds the headings discovered (of the fragments classified as
  headings, in document order, the first with each cleaned non-empty text), each once,
  and the headings of one page stand in the order of their discovery. A document that
  fails has the empty outline.
\<close>

theorem C2_outline_sorted_distinct:
  "sorted (map heading_page (outline (process_pdf fitz_open pdf_path))) \<and>
   distinct (map heading_text (outline (process_pdf fitz_open pdf_path))) \<and>
   [] \<notin> heading_text ` set (outline (process_pdf fitz_open pdf_path)) \<and>
   (fitz_open pdf_path = Inr doc \<longrightarrow>
      (let blocks = concat (map extract_text_with_formatting doc);
           discovered = keep_first (candidates (calculate_font_statistics blocks) blocks)
       in mset (outline (process_pdf fitz_open pdf_path)) = mset discovered \<and>
          (\<forall>p. filter (\<lambda>h. heading_page h = p) (outline (process_pdf fitz_open pdf_path)) =
               filter (\<lambda>h. heading_page h = p) discovered)))"
proof (cases "fitz_open pdf_path")
  case (Inl e)
  then show ?thesis
    by (simp add: process_pdf_cases error_result_def)
next
  case (Inr d)
  let ?blocks = "concat (map extract_text_with_formatting d)"
  let ?disc = "keep_first (candidates (calculate_font_statistics ?blocks) ?blocks)"
  have o: "outline (process_pdf fitz_open pdf_path) = sort_key heading_page ?disc"
    by (simp add: process_pdf_cases Inr Let_def)
  have "[] \<notin> heading_text ` set ?disc"
    using keep_first_text_nonempty by force
  then show ?thesis
    unfolding o using Inr
    by (simp add: Let_def sorted_outline distinct_text_sort distinct_keep_first sort_key_stable)
qed


lemma example_report_result:
  "process_pdf example_open ''/app/input/report.pdf'' =
     \<lparr>title = ''Sample Report'',
      outline = [\<lparr>heading_level = ''H1'', heading_text = ''Sample Report'', heading_page = 1\<rparr>,
                 \<lparr>heading_level = ''H1'', heading_text = ''Introduction'', heading_page = 1\<rparr>,
                 \<lparr>heading_level = ''H2'', heading_text = ''Background'', heading_page = 1\<rparr>,
                 \<lparr>heading_level = ''H1'', heading_text = ''Methods'', heading_page = 2\<rparr>]\<rparr>"
  by code_simp

text \<open>
  A document of two pages, with the text \<open>Introduction\<close> under two numbers: the second
  is dropped, and the outline is in page order.
\<close>

theorem C2_outline_witness:
  "example_open ''/app/input/report.pdf'' = Inr example_doc \<and>
   map heading_page (outline (process_pdf example_open ''/app/input/report.pdf'')) = [1, 1, 1, 2] \<and>
   map heading_text (outline (process_pdf example_open ''/app/input/report.pdf'')) =
     [''Sample Report'', ''Introduction'', ''Background'', ''Methods''] \<and>
   sorted (map heading_page (outline (process_pdf example_open ''/app/input/report.pdf''))) \<and>
   distinct (map heading_text (outline (process_pdf example_open ''/app/input/report.pdf'')))"
proof -
  have "example_open ''/app/input/report.pdf'' = Inr example_doc"
    by (simp add: example_open_def)
  with C2_outline_sorted_distinct [of example_open "''/app/input/report.pdf''" example_doc]
  show ?thesis
    by (simp add: example_report_result)
qed

lemma process_directory_map:
  "process_directory fitz_open input_dir output_dir filenames =
     map (\<lambda>filename. (path_join output_dir (py_replace filename ''.pdf'' ''.json''),
                       process_pdf fitz_open (path_join input_dir filename)))
         (filter (\<lambda>filename. endswith (py_lower filename) ''.pdf'') filenames)"
  by (induction filenames) (simp_all add: Let_def)

text \<open>
  Claim C4: a document whose opening or reading raises gives the result with the title
  \<open>Error Processing Document\<close> and an empty outline; a document that opens gives the
  result computed from its own pages, without an exception; and the batch writes one
  result for every \<open>.pdf\<close> file name of the directory, in order, each the result of
  that document alone.
\<close>

theorem C4_failed_document_sentinel:
  "(fitz_open pdf_path = Inl e \<longrightarrow>
      process_pdf fitz_open pdf_path = \<lparr>title = ''Error Processing Document'', outline = []\<rparr>) \<and>
   (fitz_open pdf_path = Inr doc \<longrightarrow> process_pages doc = Inr (process_pdf fitz_open pdf_path)) \<and>
   process_directory fitz_open input_dir output_dir filenames =
     map (\<lambda>filename. (path_join output_dir (py_replace filename ''.pdf'' ''.json''),
                       process_pdf fitz_open (path_join input_dir filename)))
         (filter (\<lambda>filename. endswith (py_lower filename) ''.pdf'') filenames) \<and>
   length (process_directory fitz_open input_dir output_dir filenames) =
     length (filter (\<lambda>filename. endswith (py_lower filename) ''.pdf'') filenames)"
proof -
  have "process_pages doc = Inr (process_pdf fitz_open pdf_path)" if "fitz_open pdf_path = Inr doc"
    using that by (simp add: process_pdf_def process_pages_eq Let_def)
  then show ?thesis
    by (simp add: process_directory_map process_pdf_def error_result_def)
qed

lemma example_directory_result:
  "process_directory example_open ''/app/input'' ''/app/output''
     [''broken.pdf'', ''notes.txt'', ''report.pdf''] =
   [(''/app/output/broken.json'', \<lparr>title = ''Error Processing Document'', outline = []\<rparr>),
    (''/app/output/report.json'', process_pdf example_open ''/app/input/report.pdf'')]"
  by code_simp

text \<open>
  A directory with a file that does not open, a text file and a good document: two
  results, the first the sentinel, the second the outline of the good document.
\<close>

theorem C4_failed_document_witness:
  "example_open ''/app/input/broken.pdf'' = Inl DocumentOpenError \<and>
   process_pdf example_open ''/app/input/broken.pdf'' =
     \<lparr>title = ''Error Processing Document'', outline = []\<rparr> \<and>
   process_directory example_open ''/app/input'' ''/app/output''
     [''broken.pdf'', ''notes.txt'', ''report.pdf''] =
   [(''/app/output/broken.json'', \<lparr>title = ''Error Processing Document'', outline = []\<rparr>),
    (''/app/output/report.json'', process_pdf example_open ''/app/input/report.pdf'')] \<and>
   title (process_pdf example_open ''/app/input/report.pdf'') = ''Sample Report'' \<and>
   length (outline (process_pdf example_open ''/app/input/report.pdf'')) = 4"
proof -
  have a: "example_open ''/app/input/broken.pdf'' = Inl DocumentOpenError"
    by (simp add: example_open_def)
  from C4_failed_document_sentinel
         [of example_open "''/app/input/broken.pdf''" DocumentOpenError example_doc
             "''/app/input''" "''/app/output''" "[''broken.pdf'', ''notes.txt'', ''report.pdf'']"]
  have b: "process_pdf example_open ''/app/input/broken.pdf'' =
             \<lparr>title = ''Error Processing Document'', outline = []\<rparr>"
    using a by blast
  show ?thesis
    using a b
    by (simp del: process_directory.simps add: example_directory_result example_report_result)
qed

end
